theory Spec2Isabelle
  imports Complex_Main "HOL-Library.Word"
begin

unbundle bit_operations_syntax

section \<open>Strings, errors and indexing\<close>

text \<open>
  A Python \<open>str\<close> that the programs only index and compare (holder identities, bits,
  bases, cryptograms, the digits of the MAC) is a \<^typ>\<open>string\<close>: one \<^typ>\<open>char\<close>
  per code point, for the code points below 256. A \<open>str\<close> that is encoded (the secret
  and the merchant identity, the two arguments of \<open>mac\<close>) is the list of its code
  points, each below 0x110000, since what \<open>encode\<close> does depends on them.
  Uncaught Python exceptions are values of \<open>py_error\<close>; a \<open>KeyError\<close> carries the
  missing key, as Python's does.
\<close>

datatype py_error = KeyError string | IndexError | UnicodeEncodeError

type_synonym pystr = "nat list"

text \<open>The \<open>str\<close> written with the given characters.\<close>

definition py_str :: "string \<Rightarrow> pystr" where
  "py_str s = map of_char s"

text \<open>The security parameter of \<open>app.py\<close>: the length of a quantum token.\<close>

definition LAMBDA :: nat where
  "LAMBDA = 8"

text \<open>\<open>s[j]\<close> for \<open>j \<ge> 0\<close>: IndexError at or beyond the end of the string.\<close>

definition getitem :: "string \<Rightarrow> nat \<Rightarrow> py_error + char" where
  "getitem s j = (if j < length s then Inr (s ! j) else Inl IndexError)"

section \<open>The MAC\<close>

subsection \<open>\<open>str.encode()\<close>: UTF-8\<close>

type_synonym byte = "8 word"

text \<open>
  The code points U+D800 to U+DFFF are the surrogates. A Python \<open>str\<close> may hold
  them, and \<open>str.encode()\<close> refuses them with \<open>UnicodeEncodeError\<close>.
\<close>

definition is_surrogate :: "nat \<Rightarrow> bool" where
  "is_surrogate c = (0xD800 \<le> c \<and> c \<le> 0xDFFF)"

text \<open>UTF-8 of one code point: one to four bytes, by its size.\<close>

definition utf8_char :: "nat \<Rightarrow> py_error + byte list" where
  "utf8_char c =
     (if c < 0x80 then Inr [of_nat c]
      else if c < 0x800 then Inr [of_nat (0xC0 + c div 64), of_nat (0x80 + c mod 64)]
      else if c < 0x10000 then
        (if is_surrogate c then Inl UnicodeEncodeError
         else Inr [of_nat (0xE0 + c div 4096), of_nat (0x80 + c div 64 mod 64),
                   of_nat (0x80 + c mod 64)])
      else Inr [of_nat (0xF0 + c div 262144), of_nat (0x80 + c div 4096 mod 64),
                of_nat (0x80 + c div 64 mod 64), of_nat (0x80 + c mod 64)])"

text \<open>\<open>s.encode()\<close>: the bytes of all code points, or the exception of the first refused.\<close>

fun encode :: "pystr \<Rightarrow> py_error + byte list" where
  "encode [] = Inr []"
| "encode (c # cs) =
     (case utf8_char c of
        Inl e \<Rightarrow> Inl e
      | Inr bytes \<Rightarrow> (case encode cs of Inl e \<Rightarrow> Inl e | Inr rest \<Rightarrow> Inr (bytes @ rest)))"

subsection \<open>\<open>hashlib.sha256\<close>: SHA-256 on bytes\<close>

text \<open>
  \<open>hashlib.sha256(data).digest()\<close> is the SHA-256 of the standard library, written out
  here on 32-bit words, whose addition wraps: padding to a multiple of 64 bytes, a
  64-word message schedule per block, 64 rounds of compression, and the eight words
  of the final state as 32 bytes, most significant byte first.
\<close>

type_synonym w32 = "32 word"

type_synonym hstate = "w32 \<times> w32 \<times> w32 \<times> w32 \<times> w32 \<times> w32 \<times> w32 \<times> w32"

definition rotr :: "nat \<Rightarrow> w32 \<Rightarrow> w32" where
  "rotr n x = drop_bit n x OR push_bit (32 - n) x"

definition Ch :: "w32 \<Rightarrow> w32 \<Rightarrow> w32 \<Rightarrow> w32" where
  "Ch x y z = (x AND y) XOR (NOT x AND z)"

definition Maj :: "w32 \<Rightarrow> w32 \<Rightarrow> w32 \<Rightarrow> w32" where
  "Maj x y z = (x AND y) XOR (x AND z) XOR (y AND z)"

definition Sigma0 :: "w32 \<Rightarrow> w32" where
  "Sigma0 x = rotr 2 x XOR rotr 13 x XOR rotr 22 x"

definition Sigma1 :: "w32 \<Rightarrow> w32" where
  "Sigma1 x = rotr 6 x XOR rotr 11 x XOR rotr 25 x"

definition sigma0 :: "w32 \<Rightarrow> w32" where
  "sigma0 x = rotr 7 x XOR rotr 18 x XOR drop_bit 3 x"

definition sigma1 :: "w32 \<Rightarrow> w32" where
  "sigma1 x = rotr 17 x XOR rotr 19 x XOR drop_bit 10 x"

text \<open>The 64 round constants, eight to a row.\<close>

definition K256 :: "w32 list" where
  "K256 =
     [0x428a2f98, 0x71374491, 0xb5c0fbcf, 0xe9b5dba5, 0x3956c25b, 0x59f111f1, 0x923f82a4, 0xab1c5ed5] @
     [0xd807aa98, 0x12835b01, 0x243185be, 0x550c7dc3, 0x72be5d74, 0x80deb1fe, 0x9bdc06a7, 0xc19bf174] @
     [0xe49b69c1, 0xefbe4786, 0x0fc19dc6, 0x240ca1cc, 0x2de92c6f, 0x4a7484aa, 0x5cb0a9dc, 0x76f988da] @
     [0x983e5152, 0xa831c66d, 0xb00327c8, 0xbf597fc7, 0xc6e00bf3, 0xd5a79147, 0x06ca6351, 0x14292967] @
     [0x27b70a85, 0x2e1b2138, 0x4d2c6dfc, 0x53380d13, 0x650a7354, 0x766a0abb, 0x81c2c92e, 0x92722c85] @
     [0xa2bfe8a1, 0xa81a664b, 0xc24b8b70, 0xc76c51a3, 0xd192e819, 0xd6990624, 0xf40e3585, 0x106aa070] @
     [0x19a4c116, 0x1e376c08, 0x2748774c, 0x34b0bcb5, 0x391c0cb3, 0x4ed8aa4a, 0x5b9cca4f, 0x682e6ff3] @
     [0x748f82ee, 0x78a5636f, 0x84c87814, 0x8cc70208, 0x90befffa, 0xa4506ceb, 0xbef9a3f7, 0xc67178f2]"

definition H256_init :: hstate where
  "H256_init = (0x6a09e667, 0xbb67ae85, 0x3c6ef372, 0xa54ff53a,
                0x510e527f, 0x9b05688c, 0x1f83d9ab, 0x5be0cd19)"

text \<open>Four bytes, most significant first, as one word.\<close>

definition be32 :: "byte list \<Rightarrow> w32" where
  "be32 bs = foldl (\<lambda>acc x. push_bit 8 acc OR ucast x) 0 bs"

text \<open>The first \<open>n\<close> pieces of \<open>k\<close> elements each.\<close>

fun chunks :: "nat \<Rightarrow> nat \<Rightarrow> 'a list \<Rightarrow> 'a list list" where
  "chunks 0 k xs = []"
| "chunks (Suc n) k xs = take k xs # chunks n k (drop k xs)"

text \<open>
  The message, the byte 0x80, zero bytes up to 56 modulo 64, and the length of the
  message in bits as a 64-bit number, most significant byte first.
\<close>

definition pad :: "byte list \<Rightarrow> byte list" where
  "pad msg =
     (let l = length msg;
          z = (119 - l mod 64) mod 64;
          bitlen = (word_of_nat (8 * l) :: 64 word)
      in msg @ [0x80] @ replicate z 0 @
         map (\<lambda>i. ucast (drop_bit (8 * i) bitlen)) (rev [0..<8]))"

text \<open>Extends the 16 words of a block by \<open>n\<close> more words of the schedule.\<close>

fun schedule :: "nat \<Rightarrow> w32 list \<Rightarrow> w32 list" where
  "schedule 0 w = w"
| "schedule (Suc n) w =
     (let t = length w
      in schedule n
           (w @ [sigma1 (w ! (t - 2)) + w ! (t - 7) + sigma0 (w ! (t - 15)) + w ! (t - 16)]))"

fun round_step :: "hstate \<Rightarrow> w32 \<times> w32 \<Rightarrow> hstate" where
  "round_step (a, b, c, d, e, f, g, h) (k, w) =
     (let t1 = h + Sigma1 e + Ch e f g + k + w;
          t2 = Sigma0 a + Maj a b c
      in (t1 + t2, a, b, c, d + t1, e, f, g))"

fun add_state :: "hstate \<Rightarrow> hstate \<Rightarrow> hstate" where
  "add_state (a, b, c, d, e, f, g, h) (a', b', c', d', e', f', g', h') =
     (a + a', b + b', c + c', d + d', e + e', f + f', g + g', h + h')"

definition compress :: "hstate \<Rightarrow> byte list \<Rightarrow> hstate" where
  "compress hs block =
     (let w = schedule 48 (map be32 (chunks 16 4 block))
      in add_state hs (foldl round_step hs (zip K256 w)))"

definition word_bytes :: "w32 \<Rightarrow> byte list" where
  "word_bytes x = [ucast (drop_bit 24 x), ucast (drop_bit 16 x), ucast (drop_bit 8 x), ucast x]"

fun digest_bytes :: "hstate \<Rightarrow> byte list" where
  "digest_bytes (a, b, c, d, e, f, g, h) =
     word_bytes a @ word_bytes b @ word_bytes c @ word_bytes d @
     word_bytes e @ word_bytes f @ word_bytes g @ word_bytes h"

definition sha256 :: "byte list \<Rightarrow> byte list" where
  "sha256 msg =
     (let p = pad msg
      in digest_bytes (foldl compress H256_init (chunks (length p div 64) 64 p)))"

subsection \<open>\<open>format(byte, '08b')\<close> and \<open>mac\<close>\<close>

text \<open>\<open>format(n, 'b')\<close>: the binary digits of \<open>n\<close>, no leading zero.\<close>

fun bin_digits :: "nat \<Rightarrow> string" where
  "bin_digits n =
     (if n < 2 then [if n = 0 then CHR ''0'' else CHR ''1'']
      else bin_digits (n div 2) @ [if n mod 2 = 0 then CHR ''0'' else CHR ''1''])"

declare bin_digits.simps [simp del]

text \<open>\<open>format(n, '08b')\<close>: the same, filled with zeros on the left up to width 8.\<close>

definition format_08b :: "nat \<Rightarrow> string" where
  "format_08b n = (let s = bin_digits n in replicate (8 - length s) CHR ''0'' @ s)"

text \<open>
  \<open>mac(secret, message)\<close>: the first \<open>LAMBDA\<close> binary digits of the SHA-256 of the
  two strings joined, or the exception of \<open>encode\<close>. Iterating over Python \<open>bytes\<close>
  gives integers from 0 to 255.
\<close>

definition mac :: "pystr \<Rightarrow> pystr \<Rightarrow> py_error + string" where
  "mac secret message =
     (let combined = secret @ message
      in case encode combined of
           Inl e \<Rightarrow> Inl e
         | Inr data \<Rightarrow>
            (let hash_bytes = sha256 data;
                 binary = concat (map (\<lambda>byte. format_08b (unat byte)) hash_bytes)
             in Inr (take LAMBDA binary)))"

section \<open>Qubits\<close>

text \<open>
  The \<open>Qubit\<close> of netqasm as a simulator without noise computes it: a vector of two
  amplitudes, of the outcomes 0 and 1. The gates used here (X, Z, H) have real
  entries, so real amplitudes are enough. A measurement in the computational basis
  gives an outcome with the square of its amplitude as probability; the outcome is
  \<open>True\<close> for 1.
\<close>

type_synonym qubit = "real \<times> real"

text \<open>\<open>Qubit(connection)\<close>: a fresh qubit is in the state of outcome 0.\<close>

definition qubit_init :: qubit where
  "qubit_init = (1, 0)"

definition gate_X :: "qubit \<Rightarrow> qubit" where
  "gate_X q = (snd q, fst q)"

definition gate_Z :: "qubit \<Rightarrow> qubit" where
  "gate_Z q = (fst q, - snd q)"

definition gate_H :: "qubit \<Rightarrow> qubit" where
  "gate_H q = ((fst q + snd q) / sqrt 2, (fst q - snd q) / sqrt 2)"

definition measure_prob :: "qubit \<Rightarrow> bool \<Rightarrow> real" where
  "measure_prob q outcome = (if outcome then (snd q)\<^sup>2 else (fst q)\<^sup>2)"

text \<open>\<open>str(k)\<close> of an integer that is 0 or 1.\<close>

definition str_bit :: "bool \<Rightarrow> string" where
  "str_bit k = (if k then ''1'' else ''0'')"

section \<open>The trusted third party\<close>

text \<open>A stored token is the dictionary \<open>{"b": b, "B": B}\<close>.\<close>

record token =
  tok_b :: string
  tok_B :: string

text \<open>The two dictionaries of \<open>TTPProgram\<close>.\<close>

record ttp_state =
  client_database :: "string \<rightharpoonup> pystr"
  token_storage :: "string \<rightharpoonup> token"

text \<open>\<open>TTPProgram.__init__\<close>.\<close>

definition ttp_init :: ttp_state where
  "ttp_init =
     \<lparr>client_database = [''client_alice'' \<mapsto> py_str ''secret_token_abc123''],
      token_storage = Map.empty\<rparr>"

text \<open>The message of the merchant: client_id, kappa, merchant_id.\<close>

record verification_msg =
  vm_client_id :: string
  vm_kappa :: string
  vm_merchant_id :: pystr

text \<open>
  \<open>''.join(str(random.randint(0, 1)) for _ in range(LAMBDA))\<close>, where \<open>rnd i\<close> tells
  whether draw number \<open>i\<close> of the random generator is 1, from draw \<open>k\<close> on.
\<close>

definition random_bits :: "(nat \<Rightarrow> bool) \<Rightarrow> nat \<Rightarrow> string" where
  "random_bits rnd k = concat (map (\<lambda>i. str_bit (rnd (k + i))) [0..<LAMBDA])"

text \<open>
  Step 1 of \<open>TTPProgram.run\<close>: draw \<open>b\<close> and \<open>B\<close>, store the token under the client
  identity, send it to the client. The result is the new state and the message sent.
\<close>

definition ttp_issue :: "(nat \<Rightarrow> bool) \<Rightarrow> ttp_state \<Rightarrow> ttp_state \<times> token" where
  "ttp_issue rnd st =
     (let b = random_bits rnd 0;
          B = random_bits rnd LAMBDA;
          client_id = ''client_alice'';
          st' = st\<lparr>token_storage := (token_storage st)(client_id \<mapsto> \<lparr>tok_b = b, tok_B = B\<rparr>)\<rparr>
      in (st', \<lparr>tok_b = b, tok_B = B\<rparr>))"

text \<open>
  The loop over \<open>j in range(LAMBDA)\<close> of step 4, with the two counters. Python reads
  \<open>m[j]\<close> and \<open>B_original[j]\<close> first, and \<open>kappa[j]\<close> and \<open>b_original[j]\<close> only where
  the bases match.
\<close>

fun verify_loop ::
  "nat list \<Rightarrow> string \<Rightarrow> string \<Rightarrow> string \<Rightarrow> string \<Rightarrow> nat \<Rightarrow> nat \<Rightarrow> py_error + (nat \<times> nat)" where
  "verify_loop [] m B_original kappa b_original matches total_checked =
     Inr (matches, total_checked)"
| "verify_loop (j # js) m B_original kappa b_original matches total_checked =
     (case getitem m j of Inl e \<Rightarrow> Inl e | Inr mj \<Rightarrow>
     (case getitem B_original j of Inl e \<Rightarrow> Inl e | Inr Bj \<Rightarrow>
        if mj = Bj then
          (case getitem kappa j of Inl e \<Rightarrow> Inl e | Inr kj \<Rightarrow>
          (case getitem b_original j of Inl e \<Rightarrow> Inl e | Inr bj \<Rightarrow>
             if kj = bj
             then verify_loop js m B_original kappa b_original (matches + 1) (total_checked + 1)
             else verify_loop js m B_original kappa b_original matches (total_checked + 1)))
        else verify_loop js m B_original kappa b_original matches total_checked))"

text \<open>
  Step 4 of \<open>TTPProgram.run\<close>: the state after the step, and either the exception
  that ends the program or the verdict sent to the merchant.
\<close>

definition ttp_verify :: "ttp_state \<Rightarrow> verification_msg \<Rightarrow> ttp_state \<times> (py_error + bool)" where
  "ttp_verify st verification_msg =
     (let client_id = vm_client_id verification_msg;
          kappa = vm_kappa verification_msg;
          merchant_id = vm_merchant_id verification_msg
      in case client_database st client_id of
           None \<Rightarrow> (st, Inl (KeyError client_id))
         | Some secret_token \<Rightarrow>
        (case token_storage st client_id of
           None \<Rightarrow> (st, Inl (KeyError client_id))
         | Some stored_token \<Rightarrow>
            (let b_original = tok_b stored_token;
                 B_original = tok_B stored_token
             in (case mac secret_token merchant_id of
                   Inl e \<Rightarrow> (st, Inl e)
                 | Inr m \<Rightarrow>
                    (case verify_loop [0..<LAMBDA] m B_original kappa b_original 0 0 of
                       Inl e \<Rightarrow> (st, Inl e)
                     | Inr (matches, total_checked) \<Rightarrow>
                         (let payment_accepted = (matches = total_checked \<and> total_checked > 0)
                          in (st, Inr payment_accepted)))))))"

section \<open>The client\<close>

text \<open>The body of the preparation loop: the state encoding the bit in the basis.\<close>

definition prepare :: "char \<Rightarrow> char \<Rightarrow> qubit" where
  "prepare bj Bj =
     (let q = qubit_init
      in if Bj = CHR ''0'' then (if bj = CHR ''1'' then gate_X q else q)
         else (let q = gate_H q in if bj = CHR ''1'' then gate_Z q else q))"

fun prepare_loop :: "nat list \<Rightarrow> string \<Rightarrow> string \<Rightarrow> qubit list \<Rightarrow> py_error + qubit list" where
  "prepare_loop [] b B qubits = Inr qubits"
| "prepare_loop (j # js) b B qubits =
     (case getitem B j of Inl e \<Rightarrow> Inl e | Inr Bj \<Rightarrow>
     (case getitem b j of Inl e \<Rightarrow> Inl e | Inr bj \<Rightarrow>
        prepare_loop js b B (qubits @ [prepare bj Bj])))"

text \<open>The state that is measured in the computational basis, for basis digit \<open>mj\<close>.\<close>

definition measure_basis :: "char \<Rightarrow> qubit \<Rightarrow> qubit" where
  "measure_basis mj q = (if mj = CHR ''1'' then gate_H q else q)"

text \<open>
  The measurement loop. \<open>outcome j\<close> is the result the simulator returns for the
  measurement of qubit \<open>j\<close>; beside \<open>kappa\<close> the loop keeps the probability of the
  results so far.
\<close>

fun measure_loop ::
  "nat list \<Rightarrow> string \<Rightarrow> qubit list \<Rightarrow> (nat \<Rightarrow> bool) \<Rightarrow> bool list \<Rightarrow> real
     \<Rightarrow> py_error + (bool list \<times> real)" where
  "measure_loop [] m qubits outcome kappa p = Inr (kappa, p)"
| "measure_loop (j # js) m qubits outcome kappa p =
     (if j < length qubits then
        (case getitem m j of Inl e \<Rightarrow> Inl e | Inr mj \<Rightarrow>
          (let q = measure_basis mj (qubits ! j);
               result = outcome j
           in measure_loop js m qubits outcome (kappa @ [result]) (p * measure_prob q result)))
      else Inl IndexError)"

text \<open>The message of the client to the merchant: client_id, kappa.\<close>

record payment_data =
  pd_client_id :: string
  pd_kappa :: string

text \<open>
  \<open>ClientProgram.run\<close> on the token received, for the measurement results \<open>outcome\<close>:
  the message sent to the merchant, and the probability of these results.
\<close>

definition client_run ::
  "string \<Rightarrow> pystr \<Rightarrow> pystr \<Rightarrow> token \<Rightarrow> (nat \<Rightarrow> bool) \<Rightarrow> py_error + (payment_data \<times> real)" where
  "client_run client_id secret_token merchant_id token_info outcome =
     (let b = tok_b token_info;
          B = tok_B token_info
      in case prepare_loop [0..<LAMBDA] b B [] of
           Inl e \<Rightarrow> Inl e
         | Inr qubits \<Rightarrow>
            (case mac secret_token merchant_id of
               Inl e \<Rightarrow> Inl e
             | Inr m \<Rightarrow>
                (case measure_loop [0..<LAMBDA] m qubits outcome [] 1 of
                   Inl e \<Rightarrow> Inl e
                 | Inr (kappa, p) \<Rightarrow>
                     (let kappa_str = concat (map str_bit kappa)
                      in Inr (\<lparr>pd_client_id = client_id, pd_kappa = kappa_str\<rparr>, p)))))"

section \<open>The merchant\<close>

definition MERCHANT_ID :: pystr where
  "MERCHANT_ID = py_str ''merchant_shop_xyz''"

text \<open>Step 3 of \<open>MerchantProgram.run\<close>: the request forwarded to the TTP.\<close>

definition merchant_request :: "payment_data \<Rightarrow> verification_msg" where
  "merchant_request payment_data =
     \<lparr>vm_client_id = pd_client_id payment_data,
      vm_kappa = pd_kappa payment_data,
      vm_merchant_id = MERCHANT_ID\<rparr>"

section \<open>One run of the three programs\<close>

text \<open>The client of \<open>sim.py\<close>.\<close>

definition CLIENT_ID :: string where
  "CLIENT_ID = ''client_alice''"

definition SECRET_TOKEN :: pystr where
  "SECRET_TOKEN = py_str ''secret_token_abc123''"

text \<open>
  What one run leaves behind: the state of the TTP, the token it issued, the
  cryptogram of the client, the probability of the client's measurement results, and
  the exception or verdict of the TTP.
\<close>

record protocol_result =
  pr_state :: ttp_state
  pr_token :: token
  pr_kappa :: string
  pr_prob :: real
  pr_result :: "py_error + bool"

text \<open>
  The run of \<open>sim.py\<close>, message by message: the TTP issues, the client measures and
  pays, the merchant forwards, the TTP verifies. \<open>Inl\<close> is an exception in the client.
\<close>

definition run_protocol ::
  "(nat \<Rightarrow> bool) \<Rightarrow> (nat \<Rightarrow> bool) \<Rightarrow> string \<Rightarrow> pystr \<Rightarrow> pystr \<Rightarrow> ttp_state
     \<Rightarrow> py_error + protocol_result" where
  "run_protocol rnd outcome client_id secret_token merchant_id st =
     (let (st1, token_info) = ttp_issue rnd st
      in case client_run client_id secret_token merchant_id token_info outcome of
           Inl e \<Rightarrow> Inl e
         | Inr (payment_data, p) \<Rightarrow>
            (let (st2, result) = ttp_verify st1 (merchant_request payment_data)
             in Inr \<lparr>pr_state = st2, pr_token = token_info, pr_kappa = pd_kappa payment_data,
                     pr_prob = p, pr_result = result\<rparr>))"

section \<open>The words of the specification\<close>

text \<open>
  Position \<open>j\<close> is checked when the basis recomputed by the issuer is the basis of
  the token there.
\<close>

definition checked_positions :: "string \<Rightarrow> string \<Rightarrow> nat list" where
  "checked_positions m B = filter (\<lambda>j. m ! j = B ! j) [0..<LAMBDA]"

definition spec_total_checked :: "string \<Rightarrow> string \<Rightarrow> nat" where
  "spec_total_checked m B = length (checked_positions m B)"

text \<open>A checked position is a match when the cryptogram has the bit of the token.\<close>

definition spec_matches :: "string \<Rightarrow> string \<Rightarrow> string \<Rightarrow> string \<Rightarrow> nat" where
  "spec_matches m B kappa b = length (filter (\<lambda>j. kappa ! j = b ! j) (checked_positions m B))"

text \<open>Flipping one bit of a cryptogram.\<close>

definition flip_bit :: "char \<Rightarrow> char" where
  "flip_bit c = (if c = CHR ''0'' then CHR ''1'' else CHR ''0'')"

text \<open>A sequence of random draws, or of measurement results, written as binary digits.\<close>

definition bits_of :: "string \<Rightarrow> nat \<Rightarrow> bool" where
  "bits_of s i = (i < length s \<and> s ! i = CHR ''1'')"

section \<open>The scenario of the specification\<close>

text \<open>
  The end-to-end scenario: the TTP draws \<open>b = 10110010\<close> and \<open>B = 01101100\<close>, the
  client measures \<open>10110010\<close>. The TTP starts from \<open>ttp_init\<close>.
\<close>

definition e2e_rnd :: "nat \<Rightarrow> bool" where
  "e2e_rnd = bits_of ''1011001001101100''"

definition e2e_outcome :: "nat \<Rightarrow> bool" where
  "e2e_outcome = bits_of ''10110010''"

definition e2e_token :: token where
  "e2e_token = \<lparr>tok_b = ''10110010'', tok_B = ''01101100''\<rparr>"

definition e2e_state :: ttp_state where
  "e2e_state = ttp_init\<lparr>token_storage := [''client_alice'' \<mapsto> e2e_token]\<rparr>"

text \<open>
  The same with \<open>B = 11001111\<close>, which differs from the MAC of the scenario at every
  position.
\<close>

definition vac_rnd :: "nat \<Rightarrow> bool" where
  "vac_rnd = bits_of ''1011001011001111''"

definition vac_token :: token where
  "vac_token = \<lparr>tok_b = ''10110010'', tok_B = ''11001111''\<rparr>"

definition vac_state :: ttp_state where
  "vac_state = ttp_init\<lparr>token_storage := [''client_alice'' \<mapsto> vac_token]\<rparr>"


section \<open>Properties of the MAC\<close>

lemma length_digest_bytes: "length (digest_bytes hs) = 32"
  by (cases hs rule: digest_bytes.cases) (simp add: word_bytes_def)

lemma length_sha256: "length (sha256 msg) = 32"
  by (simp add: sha256_def Let_def length_digest_bytes)

lemma set_bin_digits: "set (bin_digits n) \<subseteq> {CHR ''0'', CHR ''1''}"
proof (induction n rule: bin_digits.induct)
  case (1 n)
  show ?case
  proof (cases "n < 2")
    case True
    then show ?thesis by (simp add: bin_digits.simps [of n])
  next
    case False
    with 1 show ?thesis by (auto simp: bin_digits.simps [of n])
  qed
qed

lemma length_format_08b: "8 \<le> length (format_08b n)"
  by (simp add: format_08b_def Let_def)

lemma set_format_08b: "set (format_08b n) \<subseteq> {CHR ''0'', CHR ''1''}"
  using set_bin_digits [of n] by (auto simp: format_08b_def Let_def)

lemma length_concat_format:
  "bs \<noteq> [] \<Longrightarrow> 8 \<le> length (concat (map (\<lambda>byte. format_08b (unat byte)) bs))"
  using length_format_08b by (cases bs) (simp_all add: trans_le_add1)

lemma set_concat_format:
  "set (concat (map (\<lambda>byte. format_08b (unat byte)) bs)) \<subseteq> {CHR ''0'', CHR ''1''}"
  using set_format_08b by auto

lemma utf8_char_Inl: "utf8_char c = Inl e \<longleftrightarrow> is_surrogate c \<and> e = UnicodeEncodeError"
  by (auto simp: utf8_char_def is_surrogate_def)

lemma encode_surrogate:
  "\<exists>c\<in>set s. is_surrogate c \<Longrightarrow> encode s = Inl UnicodeEncodeError"
proof (induction s)
  case Nil
  then show ?case by simp
next
  case (Cons c cs)
  show ?case
  proof (cases "utf8_char c")
    case (Inl e)
    then have "e = UnicodeEncodeError"
      using utf8_char_Inl [of c e] by blast
    with Inl show ?thesis by simp
  next
    case (Inr bytes)
    then have "\<not> is_surrogate c"
      using utf8_char_Inl [of c UnicodeEncodeError] by auto
    with Cons have "encode cs = Inl UnicodeEncodeError" by auto
    with Inr show ?thesis by simp
  qed
qed

lemma encode_no_surrogate:
  "\<not> (\<exists>c\<in>set s. is_surrogate c) \<Longrightarrow> \<exists>data. encode s = Inr data"
proof (induction s)
  case Nil
  then show ?case by simp
next
  case (Cons c cs)
  then obtain rest where rest: "encode cs = Inr rest" by auto
  from Cons.prems have "\<not> is_surrogate c" by simp
  then obtain bytes where "utf8_char c = Inr bytes"
    using utf8_char_Inl [of c] by (cases "utf8_char c") auto
  with rest show ?case by simp
qed

lemma mac_surrogate:
  "\<exists>c\<in>set (secret @ message). is_surrogate c \<Longrightarrow> mac secret message = Inl UnicodeEncodeError"
  using encode_surrogate [of "secret @ message"] by (simp add: mac_def Let_def)

lemma mac_no_surrogate:
  "\<not> (\<exists>c\<in>set (secret @ message). is_surrogate c) \<Longrightarrow> \<exists>m. mac secret message = Inr m"
  using encode_no_surrogate [of "secret @ message"] by (auto simp: mac_def Let_def)

lemma length_mac: "mac secret message = Inr m \<Longrightarrow> length m = LAMBDA"
proof -
  assume m: "mac secret message = Inr m"
  then obtain data where data: "encode (secret @ message) = Inr data"
    by (auto simp: mac_def Let_def split: sum.splits)
  have "sha256 data \<noteq> []"
    using length_sha256 [of data] by auto
  from length_concat_format [OF this] m data show ?thesis
    by (auto simp: mac_def Let_def LAMBDA_def)
qed

lemma set_mac: "mac secret message = Inr m \<Longrightarrow> set m \<subseteq> {CHR ''0'', CHR ''1''}"
proof -
  assume m: "mac secret message = Inr m"
  then obtain data where data: "encode (secret @ message) = Inr data"
    by (auto simp: mac_def Let_def split: sum.splits)
  with m have "m = take LAMBDA (concat (map (\<lambda>byte. format_08b (unat byte)) (sha256 data)))"
    by (simp add: mac_def Let_def)
  then have "set m \<subseteq> set (concat (map (\<lambda>byte. format_08b (unat byte)) (sha256 data)))"
    by (metis set_take_subset)
  with set_concat_format show ?thesis by blast
qed

section \<open>The loops in closed form\<close>

lemma verify_loop_counts:
  assumes "\<forall>j\<in>set js. j < length m \<and> j < length B \<and> j < length b"
  shows "verify_loop js m B kappa b mt tc =
     (if \<exists>j\<in>set js. m ! j = B ! j \<and> length kappa \<le> j then Inl IndexError
      else Inr (mt + length (filter (\<lambda>j. kappa ! j = b ! j) (filter (\<lambda>j. m ! j = B ! j) js)),
                tc + length (filter (\<lambda>j. m ! j = B ! j) js)))"
  using assms
proof (induction js arbitrary: mt tc)
  case Nil
  then show ?case by simp
next
  case (Cons j js)
  then show ?case by (auto simp: getitem_def)
qed

lemma filter_conj_length_eq:
  "length (filter (\<lambda>x. P x \<and> Q x) xs) = length (filter P xs) \<longleftrightarrow> (\<forall>x\<in>set xs. P x \<longrightarrow> Q x)"
proof -
  have "length (filter Q ys) = length ys \<longleftrightarrow> (\<forall>y\<in>set ys. Q y)" for ys :: "'a list"
    by (metis filter_id_conv filter_True length_filter_less less_irrefl_nat)
  from this [of "filter P xs"] show ?thesis by auto
qed

lemma prepare_loop_eq:
  assumes "\<forall>j\<in>set js. j < length b \<and> j < length B"
  shows "prepare_loop js b B qs = Inr (qs @ map (\<lambda>j. prepare (b ! j) (B ! j)) js)"
  using assms by (induction js arbitrary: qs) (auto simp: getitem_def)

lemma measure_loop_eq:
  assumes "\<forall>j\<in>set js. j < length qubits \<and> j < length m"
  shows "measure_loop js m qubits outcome kappa p =
     Inr (kappa @ map outcome js,
          p * prod_list (map (\<lambda>j. measure_prob (measure_basis (m ! j) (qubits ! j)) (outcome j)) js))"
  using assms by (induction js arbitrary: kappa p) (auto simp: getitem_def Let_def mult.assoc)

lemma concat_str_bit: "concat (map str_bit ks) = map (\<lambda>k. if k then CHR ''1'' else CHR ''0'') ks"
  by (induction ks) (auto simp: str_bit_def)

section \<open>Gates and measurement\<close>

lemma gate_H_H: "gate_H (gate_H q) = q"
proof -
  obtain a b where q: "q = (a, b)" by (cases q)
  have "((a + b) / sqrt 2 + (a - b) / sqrt 2) / sqrt 2 = a"
    by (simp add: field_simps)
  moreover have "((a + b) / sqrt 2 - (a - b) / sqrt 2) / sqrt 2 = b"
    by (simp add: field_simps)
  ultimately show ?thesis by (simp add: gate_H_def q)
qed

lemma gate_H_Z_H: "gate_H (gate_Z (gate_H (1, 0))) = (0, 1)"
  by (simp add: gate_H_def gate_Z_def field_simps)

lemma measure_same_basis:
  assumes "bj \<in> {CHR ''0'', CHR ''1''}" "Bj \<in> {CHR ''0'', CHR ''1''}"
  shows "measure_prob (measure_basis Bj (prepare bj Bj)) r = (if r = (bj = CHR ''1'') then 1 else 0)"
  using assms
  by (auto simp: measure_basis_def prepare_def Let_def gate_H_H gate_H_Z_H measure_prob_def
      gate_X_def qubit_init_def)

lemma measure_prob_nonneg: "0 \<le> measure_prob q r"
  by (simp add: measure_prob_def)

lemma prod_list_pos_factors:
  assumes "0 < prod_list (map f js)" "\<forall>j\<in>set js. (0::real) \<le> f j" "j \<in> set js"
  shows "0 < f j"
  using assms
proof (induction js)
  case Nil
  then show ?case by simp
next
  case (Cons a js)
  have nn: "0 \<le> prod_list (map f js)"
    using Cons.prems(2) by (intro prod_list_nonneg) auto
  from Cons.prems(1) have "0 < f a * prod_list (map f js)" by simp
  with nn Cons.prems(2) have "0 < f a \<and> 0 < prod_list (map f js)"
    by (metis list.set_intros(1) mult_eq_0_iff order_less_le)
  with Cons show ?case by auto
qed

section \<open>The steps of the protocol in closed form\<close>

lemma fst_ttp_verify: "fst (ttp_verify st msg) = st"
  by (simp add: ttp_verify_def Let_def split: option.splits sum.splits prod.splits)

lemma ttp_verify_eq:
  assumes "client_database st cid = Some secret"
    and "token_storage st cid = Some tok"
    and "length (tok_b tok) = LAMBDA" and "length (tok_B tok) = LAMBDA"
    and "mac secret mid = Inr m"
  shows "ttp_verify st \<lparr>vm_client_id = cid, vm_kappa = kappa, vm_merchant_id = mid\<rparr> =
     (st, if \<exists>j\<in>set (checked_positions m (tok_B tok)). length kappa \<le> j
          then Inl IndexError
          else Inr (spec_matches m (tok_B tok) kappa (tok_b tok) = spec_total_checked m (tok_B tok)
                    \<and> 0 < spec_total_checked m (tok_B tok)))"
proof -
  have "\<forall>j\<in>set [0..<LAMBDA]. j < length m \<and> j < length (tok_B tok) \<and> j < length (tok_b tok)"
    using assms(3,4) length_mac [OF assms(5)] by simp
  from verify_loop_counts [OF this, of kappa 0 0] show ?thesis
    using assms(1,2,5)
    by (auto simp: ttp_verify_def Let_def checked_positions_def spec_total_checked_def
        spec_matches_def)
qed

lemma ttp_verify_mac_error:
  assumes "client_database st cid = Some secret"
    and "token_storage st cid = Some tok"
    and "mac secret mid = Inl e"
  shows "ttp_verify st \<lparr>vm_client_id = cid, vm_kappa = kappa, vm_merchant_id = mid\<rparr> = (st, Inl e)"
  using assms by (simp add: ttp_verify_def Let_def)

lemma random_bits_map:
  "random_bits rnd k = map (\<lambda>i. if rnd (k + i) then CHR ''1'' else CHR ''0'') [0..<LAMBDA]"
  using concat_str_bit [of "map (\<lambda>i. rnd (k + i)) [0..<LAMBDA]"]
  by (simp add: random_bits_def comp_def)

lemma length_random_bits: "length (random_bits rnd k) = LAMBDA"
  by (simp add: random_bits_map)

lemma nth_random_bits:
  "j < LAMBDA \<Longrightarrow> random_bits rnd k ! j = (if rnd (k + j) then CHR ''1'' else CHR ''0'')"
  by (simp add: random_bits_map)

lemma random_bits_digit: "j < LAMBDA \<Longrightarrow> random_bits rnd k ! j \<in> {CHR ''0'', CHR ''1''}"
  by (simp add: nth_random_bits)

lemma issued_token:
  "snd (ttp_issue rnd st) = \<lparr>tok_b = random_bits rnd 0, tok_B = random_bits rnd LAMBDA\<rparr>"
  "client_database (fst (ttp_issue rnd st)) = client_database st"
  "token_storage (fst (ttp_issue rnd st)) ''client_alice'' = Some (snd (ttp_issue rnd st))"
  by (simp_all add: ttp_issue_def Let_def)

lemma client_run_eq:
  assumes "length (tok_b tok) = LAMBDA" and "length (tok_B tok) = LAMBDA"
    and "mac secret mid = Inr m"
  shows "client_run cid secret mid tok outcome =
     Inr (\<lparr>pd_client_id = cid,
           pd_kappa = map (\<lambda>j. if outcome j then CHR ''1'' else CHR ''0'') [0..<LAMBDA]\<rparr>,
          prod_list (map (\<lambda>j. measure_prob
              (measure_basis (m ! j) (prepare (tok_b tok ! j) (tok_B tok ! j)))
              (outcome j)) [0..<LAMBDA]))"
proof -
  let ?qs = "map (\<lambda>j. prepare (tok_b tok ! j) (tok_B tok ! j)) [0..<LAMBDA]"
  let ?f = "\<lambda>j. measure_prob (measure_basis (m ! j) (?qs ! j)) (outcome j)"
  let ?g = "\<lambda>j. measure_prob
              (measure_basis (m ! j) (prepare (tok_b tok ! j) (tok_B tok ! j)))
              (outcome j)"
  have prep: "prepare_loop [0..<LAMBDA] (tok_b tok) (tok_B tok) [] = Inr ?qs"
    using prepare_loop_eq [of "[0..<LAMBDA]" "tok_b tok" "tok_B tok" "[]"] assms(1,2) by simp
  have bound: "\<forall>j\<in>set [0..<LAMBDA]. j < length ?qs \<and> j < length m"
    by (simp add: length_mac [OF assms(3)])
  have eq: "map ?f [0..<LAMBDA] = map ?g [0..<LAMBDA]"
    by (rule map_cong) simp_all
  have "measure_loop [0..<LAMBDA] m ?qs outcome [] 1 =
     Inr ([] @ map outcome [0..<LAMBDA], 1 * prod_list (map ?f [0..<LAMBDA]))"
    by (rule measure_loop_eq [OF bound])
  then have meas: "measure_loop [0..<LAMBDA] m ?qs outcome [] 1 =
     Inr (map outcome [0..<LAMBDA], prod_list (map ?g [0..<LAMBDA]))"
    unfolding eq by simp
  show ?thesis
    by (simp add: client_run_def Let_def prep assms(3) meas concat_str_bit comp_def)
qed

lemma client_run_mac_error:
  assumes "length (tok_b tok) = LAMBDA" and "length (tok_B tok) = LAMBDA"
    and "mac secret mid = Inl e"
  shows "client_run cid secret mid tok outcome = Inl e"
  using prepare_loop_eq [of "[0..<LAMBDA]" "tok_b tok" "tok_B tok" "[]"] assms
  by (simp add: client_run_def Let_def)

lemma run_protocol_eq:
  assumes "mac secret mid = Inr m"
  shows "run_protocol rnd outcome cid secret mid st =
     Inr \<lparr>pr_state = fst (ttp_issue rnd st),
          pr_token = snd (ttp_issue rnd st),
          pr_kappa = map (\<lambda>j. if outcome j then CHR ''1'' else CHR ''0'') [0..<LAMBDA],
          pr_prob = prod_list (map (\<lambda>j. measure_prob
              (measure_basis (m ! j)
                 (prepare (random_bits rnd 0 ! j) (random_bits rnd LAMBDA ! j)))
              (outcome j)) [0..<LAMBDA]),
          pr_result = snd (ttp_verify (fst (ttp_issue rnd st))
              \<lparr>vm_client_id = cid,
               vm_kappa = map (\<lambda>j. if outcome j then CHR ''1'' else CHR ''0'') [0..<LAMBDA],
               vm_merchant_id = MERCHANT_ID\<rparr>)\<rparr>"
proof -
  have "client_run cid secret mid (snd (ttp_issue rnd st)) outcome =
     Inr (\<lparr>pd_client_id = cid,
           pd_kappa = map (\<lambda>j. if outcome j then CHR ''1'' else CHR ''0'') [0..<LAMBDA]\<rparr>,
          prod_list (map (\<lambda>j. measure_prob
              (measure_basis (m ! j)
                 (prepare (random_bits rnd 0 ! j) (random_bits rnd LAMBDA ! j)))
              (outcome j)) [0..<LAMBDA]))"
    using client_run_eq [of "snd (ttp_issue rnd st)" secret mid m cid outcome] assms
    by (simp add: issued_token(1) length_random_bits)
  then show ?thesis
    by (simp add: run_protocol_def Let_def case_prod_beta merchant_request_def fst_ttp_verify)
qed

lemma run_protocol_mac_error:
  assumes "mac secret mid = Inl e"
  shows "run_protocol rnd outcome cid secret mid st = Inl e"
proof -
  have "client_run cid secret mid (snd (ttp_issue rnd st)) outcome = Inl e"
    using client_run_mac_error [of "snd (ttp_issue rnd st)" secret mid e cid outcome] assms
    by (simp add: issued_token(1) length_random_bits)
  then show ?thesis
    by (simp add: run_protocol_def Let_def case_prod_beta)
qed

text \<open>
  Where the client measures in the basis of the token, a result of positive
  probability is the bit of the token.
\<close>

lemma honest_checked_match:
  assumes pos: "0 < prod_list (map (\<lambda>j. measure_prob
              (measure_basis (m ! j) (prepare (random_bits rnd 0 ! j) (random_bits rnd LAMBDA ! j)))
              (outcome j)) [0..<LAMBDA])"
    and j: "j < LAMBDA" and chk: "m ! j = random_bits rnd LAMBDA ! j"
  shows "(if outcome j then CHR ''1'' else CHR ''0'') = random_bits rnd 0 ! j"
proof -
  let ?f = "\<lambda>j. measure_prob
              (measure_basis (m ! j) (prepare (random_bits rnd 0 ! j) (random_bits rnd LAMBDA ! j)))
              (outcome j)"
  have "0 < ?f j"
    by (rule prod_list_pos_factors [OF pos]) (use j in \<open>simp_all add: measure_prob_nonneg\<close>)
  moreover have "measure_prob (measure_basis (random_bits rnd LAMBDA ! j)
        (prepare (random_bits rnd 0 ! j) (random_bits rnd LAMBDA ! j))) (outcome j)
      = (if outcome j = (random_bits rnd 0 ! j = CHR ''1'') then 1 else 0)"
    by (rule measure_same_basis) (rule random_bits_digit [OF j])+
  ultimately have "outcome j = (random_bits rnd 0 ! j = CHR ''1'')"
    using chk by (simp split: if_splits)
  with random_bits_digit [OF j, of rnd 0] show ?thesis by auto
qed

lemma flip_bit_neq: "flip_bit c \<noteq> c"
  by (simp add: flip_bit_def)

section \<open>The scenario, evaluated\<close>

lemma upt_8: "[0..<8] = [0, 1, 2, 3, 4, 5, 6, 7]"
  by (simp add: upt_rec)

text \<open>The SHA-256 of \<open>secret_token_abc123merchant_shop_xyz\<close> begins with the byte 0x30.\<close>

lemma mac_e2e: "mac (py_str ''secret_token_abc123'') (py_str ''merchant_shop_xyz'') = Inr ''00110000''"
  by code_simp

lemma mac_e2e': "mac SECRET_TOKEN MERCHANT_ID = Inr ''00110000''"
  by (simp add: SECRET_TOKEN_def MERCHANT_ID_def mac_e2e)

text \<open>A secret that is the one code point U+D800, a surrogate.\<close>

lemma mac_lone_surrogate: "mac [0xD800] (py_str ''merchant_shop_xyz'') = Inl UnicodeEncodeError"
  by (rule mac_surrogate) (simp add: is_surrogate_def)

lemma e2e_issue: "ttp_issue e2e_rnd ttp_init = (e2e_state, e2e_token)"
  by (simp add: ttp_issue_def Let_def random_bits_map upt_8 e2e_rnd_def bits_of_def
      e2e_state_def e2e_token_def LAMBDA_def ttp_init_def)

lemma vac_issue: "ttp_issue vac_rnd ttp_init = (vac_state, vac_token)"
  by (simp add: ttp_issue_def Let_def random_bits_map upt_8 vac_rnd_def bits_of_def
      vac_state_def vac_token_def LAMBDA_def ttp_init_def)

lemma e2e_checked: "checked_positions ''00110000'' ''01101100'' = [0, 2, 6, 7]"
  by (simp add: checked_positions_def LAMBDA_def upt_8)

lemma vac_checked: "checked_positions ''00110000'' ''11001111'' = []"
  by (simp add: checked_positions_def LAMBDA_def upt_8)

lemma e2e_registered:
  "client_database e2e_state ''client_alice'' = Some SECRET_TOKEN"
  "token_storage e2e_state ''client_alice'' = Some e2e_token"
  by (simp_all add: e2e_state_def ttp_init_def SECRET_TOKEN_def)

lemma vac_registered:
  "client_database vac_state ''client_alice'' = Some SECRET_TOKEN"
  "token_storage vac_state ''client_alice'' = Some vac_token"
  by (simp_all add: vac_state_def ttp_init_def SECRET_TOKEN_def)

lemma e2e_kappa:
  "map (\<lambda>j. if e2e_outcome j then CHR ''1'' else CHR ''0'') [0..<LAMBDA] = ''10110010''"
  by (simp add: e2e_outcome_def bits_of_def LAMBDA_def upt_8)

lemma e2e_prob:
  "prod_list (map (\<lambda>j. measure_prob
      (measure_basis (''00110000'' ! j) (prepare (''10110010'' ! j) (''01101100'' ! j)))
      (e2e_outcome j)) [0..<LAMBDA]) = 1 / 16"
  by (simp add: LAMBDA_def upt_8 e2e_outcome_def bits_of_def measure_prob_def measure_basis_def
      prepare_def Let_def qubit_init_def gate_X_def gate_Z_def gate_H_def power_divide)

lemma vac_prob:
  "prod_list (map (\<lambda>j. measure_prob
      (measure_basis (''00110000'' ! j) (prepare (''10110010'' ! j) (''11001111'' ! j)))
      (e2e_outcome j)) [0..<LAMBDA]) = 1 / 256"
  by (simp add: LAMBDA_def upt_8 e2e_outcome_def bits_of_def measure_prob_def measure_basis_def
      prepare_def Let_def qubit_init_def gate_X_def gate_Z_def gate_H_def power_divide)

lemma e2e_verify:
  "ttp_verify e2e_state
     \<lparr>vm_client_id = ''client_alice'', vm_kappa = ''10110010'', vm_merchant_id = MERCHANT_ID\<rparr>
   = (e2e_state, Inr True)"
  using ttp_verify_eq [OF e2e_registered _ _ mac_e2e', of "''10110010''"]
  by (simp add: e2e_token_def LAMBDA_def e2e_checked spec_matches_def spec_total_checked_def)

lemma vac_verify:
  "ttp_verify vac_state
     \<lparr>vm_client_id = ''client_alice'', vm_kappa = ''10110010'', vm_merchant_id = MERCHANT_ID\<rparr>
   = (vac_state, Inr False)"
  using ttp_verify_eq [OF vac_registered _ _ mac_e2e', of "''10110010''"]
  by (simp add: vac_token_def LAMBDA_def vac_checked spec_matches_def spec_total_checked_def)

lemma e2e_run:
  "run_protocol e2e_rnd e2e_outcome ''client_alice'' SECRET_TOKEN MERCHANT_ID ttp_init =
     Inr \<lparr>pr_state = e2e_state, pr_token = e2e_token, pr_kappa = ''10110010'',
          pr_prob = 1 / 16, pr_result = Inr True\<rparr>"
proof -
  have tok: "random_bits e2e_rnd 0 = ''10110010''" "random_bits e2e_rnd LAMBDA = ''01101100''"
    using e2e_issue by (simp_all add: ttp_issue_def Let_def e2e_token_def)
  show ?thesis
    unfolding run_protocol_eq [OF mac_e2e']
    by (simp add: e2e_issue tok e2e_kappa e2e_verify e2e_prob)
qed

lemma vac_run:
  "run_protocol vac_rnd e2e_outcome ''client_alice'' SECRET_TOKEN MERCHANT_ID ttp_init =
     Inr \<lparr>pr_state = vac_state, pr_token = vac_token, pr_kappa = ''10110010'',
          pr_prob = 1 / 256, pr_result = Inr False\<rparr>"
proof -
  have tok: "random_bits vac_rnd 0 = ''10110010''" "random_bits vac_rnd LAMBDA = ''11001111''"
    using vac_issue by (simp_all add: ttp_issue_def Let_def vac_token_def)
  show ?thesis
    unfolding run_protocol_eq [OF mac_e2e']
    by (simp add: vac_issue tok e2e_kappa vac_verify vac_prob)
qed

section \<open>The claims\<close>

text \<open>
  C1. For a stored token \<open>(b, B)\<close> of length \<open>LAMBDA\<close>, a registered secret and a
  cryptogram of length \<open>LAMBDA\<close>, Verify leaves the state as it is and, with \<open>m\<close> the
  MAC of the secret and the merchant identity, answers with a verdict: accept exactly
  when at least one position is checked and every checked position is a match. When
  no position is checked the answer is the verdict reject, neither accept nor an
  exception. (Where the MAC itself cannot be computed there is no \<open>m\<close>, and Verify
  ends in the exception of \<open>mac\<close>.)
\<close>

theorem verify_accept_rule:
  assumes "client_database st cid = Some secret"
    and "token_storage st cid = Some \<lparr>tok_b = b, tok_B = B\<rparr>"
    and "length b = LAMBDA" and "length B = LAMBDA" and "length kappa = LAMBDA"
  shows "ttp_verify st \<lparr>vm_client_id = cid, vm_kappa = kappa, vm_merchant_id = mid\<rparr> =
       (st, case mac secret mid of
              Inl e \<Rightarrow> Inl e
            | Inr m \<Rightarrow> Inr (0 < spec_total_checked m B
                            \<and> spec_matches m B kappa b = spec_total_checked m B))
     \<and> (mac secret mid = Inr m \<and> spec_total_checked m B = 0 \<longrightarrow>
          ttp_verify st \<lparr>vm_client_id = cid, vm_kappa = kappa, vm_merchant_id = mid\<rparr>
            = (st, Inr False))"
proof (cases "mac secret mid")
  case (Inl e)
  with ttp_verify_mac_error [OF assms(1,2) Inl, of kappa] show ?thesis by simp
next
  case (Inr m')
  have "\<not> (\<exists>j\<in>set (checked_positions m' B). length kappa \<le> j)"
    using assms(5) by (auto simp: checked_positions_def)
  with ttp_verify_eq [OF assms(1,2) _ _ Inr, of kappa] assms(3,4) Inr show ?thesis
    by auto
qed

text \<open>
  C1 on the token whose bases all differ from the MAC: no position is checked, and
  the cryptogram, though equal to \<open>b\<close>, is rejected.
\<close>

theorem verify_accept_rule_witness:
  "client_database vac_state ''client_alice'' = Some SECRET_TOKEN
   \<and> token_storage vac_state ''client_alice'' = Some \<lparr>tok_b = ''10110010'', tok_B = ''11001111''\<rparr>
   \<and> length ''10110010'' = LAMBDA \<and> length ''11001111'' = LAMBDA
   \<and> mac SECRET_TOKEN MERCHANT_ID = Inr ''00110000''
   \<and> spec_total_checked ''00110000'' ''11001111'' = 0
   \<and> ttp_verify vac_state
        \<lparr>vm_client_id = ''client_alice'', vm_kappa = ''10110010'', vm_merchant_id = MERCHANT_ID\<rparr>
       = (vac_state, Inr False)"
proof -
  have h: "client_database vac_state ''client_alice'' = Some SECRET_TOKEN"
    "token_storage vac_state ''client_alice'' = Some \<lparr>tok_b = ''10110010'', tok_B = ''11001111''\<rparr>"
    "length ''10110010'' = LAMBDA" "length ''11001111'' = LAMBDA" "length ''10110010'' = LAMBDA"
    by (simp_all add: vac_registered vac_token_def SECRET_TOKEN_def LAMBDA_def)
  from verify_accept_rule [OF h, of MERCHANT_ID "''00110000''"] h show ?thesis
    by (simp add: mac_e2e' spec_total_checked_def vac_checked)
qed

text \<open>
  C2, as amended. In an honest run (the secret of the client is the one registered
  for \<open>client_alice\<close>, the client measures in the basis \<open>m\<close>, the MAC of the secret
  and \<open>MERCHANT_ID\<close>, and the merchant forwards the cryptogram as it is) the run
  returns, and for all measurement results of positive probability every checked
  position of the cryptogram is the bit of the token, and the verdict is accept
  exactly when at least one position is checked. (Where the MAC cannot be computed
  the client ends in the exception of \<open>mac\<close>.)
\<close>

theorem honest_run_verdict:
  assumes "client_database st ''client_alice'' = Some secret"
  shows "(mac secret MERCHANT_ID = Inl e \<longrightarrow>
            run_protocol rnd outcome ''client_alice'' secret MERCHANT_ID st = Inl e)
     \<and> (mac secret MERCHANT_ID = Inr m \<longrightarrow>
          (\<exists>r. run_protocol rnd outcome ''client_alice'' secret MERCHANT_ID st = Inr r
             \<and> (0 < pr_prob r \<longrightarrow>
                  (\<forall>j\<in>set (checked_positions m (tok_B (pr_token r))).
                      pr_kappa r ! j = tok_b (pr_token r) ! j)
                  \<and> pr_result r = Inr (0 < spec_total_checked m (tok_B (pr_token r))))))"
proof (intro conjI impI)
  assume "mac secret MERCHANT_ID = Inl e"
  then show "run_protocol rnd outcome ''client_alice'' secret MERCHANT_ID st = Inl e"
    by (rule run_protocol_mac_error)
next
  assume m: "mac secret MERCHANT_ID = Inr m"
  let ?kappa = "map (\<lambda>j. if outcome j then CHR ''1'' else CHR ''0'') [0..<LAMBDA]"
  let ?st1 = "fst (ttp_issue rnd st)"
  let ?p = "prod_list (map (\<lambda>j. measure_prob
              (measure_basis (m ! j) (prepare (random_bits rnd 0 ! j) (random_bits rnd LAMBDA ! j)))
              (outcome j)) [0..<LAMBDA])"
  have ver: "ttp_verify ?st1
        \<lparr>vm_client_id = ''client_alice'', vm_kappa = ?kappa, vm_merchant_id = MERCHANT_ID\<rparr> =
     (?st1, Inr (spec_matches m (random_bits rnd LAMBDA) ?kappa (random_bits rnd 0)
                      = spec_total_checked m (random_bits rnd LAMBDA)
                    \<and> 0 < spec_total_checked m (random_bits rnd LAMBDA)))"
    using ttp_verify_eq [of ?st1 "''client_alice''" secret "snd (ttp_issue rnd st)" MERCHANT_ID m
        ?kappa] assms m
    by (auto simp: issued_token length_random_bits checked_positions_def)
  have match: "\<forall>j\<in>set (checked_positions m (random_bits rnd LAMBDA)).
      ?kappa ! j = random_bits rnd 0 ! j" if "0 < ?p"
    using honest_checked_match [OF that] by (auto simp: checked_positions_def)
  then have "spec_matches m (random_bits rnd LAMBDA) ?kappa (random_bits rnd 0)
      = spec_total_checked m (random_bits rnd LAMBDA)" if "0 < ?p"
    using that
    by (auto simp: spec_matches_def spec_total_checked_def checked_positions_def
        filter_conj_length_eq)
  with match ver
  show "\<exists>r. run_protocol rnd outcome ''client_alice'' secret MERCHANT_ID st = Inr r
             \<and> (0 < pr_prob r \<longrightarrow>
                  (\<forall>j\<in>set (checked_positions m (tok_B (pr_token r))).
                      pr_kappa r ! j = tok_b (pr_token r) ! j)
                  \<and> pr_result r = Inr (0 < spec_total_checked m (tok_B (pr_token r))))"
    by (simp add: run_protocol_eq [OF m] issued_token(1))
qed

text \<open>
  C2 on the scenario: the measurement results have probability 1/16, the positions
  0, 2, 6 and 7 are checked, and the payment is accepted.
\<close>

theorem honest_run_verdict_witness:
  "client_database ttp_init ''client_alice'' = Some SECRET_TOKEN
   \<and> mac SECRET_TOKEN MERCHANT_ID = Inr ''00110000''
   \<and> run_protocol e2e_rnd e2e_outcome ''client_alice'' SECRET_TOKEN MERCHANT_ID ttp_init =
       Inr \<lparr>pr_state = e2e_state, pr_token = e2e_token, pr_kappa = ''10110010'',
            pr_prob = 1 / 16, pr_result = Inr True\<rparr>
   \<and> checked_positions ''00110000'' ''01101100'' = [0, 2, 6, 7]
   \<and> spec_total_checked ''00110000'' ''01101100'' = 4"
proof -
  have h: "client_database ttp_init ''client_alice'' = Some SECRET_TOKEN"
    by (simp add: ttp_init_def SECRET_TOKEN_def)
  from honest_run_verdict [OF h, of UnicodeEncodeError e2e_rnd e2e_outcome "''00110000''"] h
  show ?thesis
    using e2e_run by (simp add: mac_e2e' e2e_checked spec_total_checked_def)
qed

text \<open>
  C2 as stated fails: an honest run whose token has \<open>B = 11001111\<close> checks no
  position, and its measurement results, of probability 1/256, are rejected.
\<close>

theorem honest_run_rejected_counterexample:
  "client_database ttp_init CLIENT_ID = Some SECRET_TOKEN
   \<and> run_protocol vac_rnd e2e_outcome CLIENT_ID SECRET_TOKEN MERCHANT_ID ttp_init =
       Inr \<lparr>pr_state = vac_state, pr_token = vac_token, pr_kappa = ''10110010'',
            pr_prob = 1 / 256, pr_result = Inr False\<rparr>"
  using vac_run by (simp add: CLIENT_ID_def SECRET_TOKEN_def ttp_init_def)

text \<open>
  C3. For every bit and every basis, the qubit prepared for them (nothing or X in the
  computational basis, H and then nothing or Z in the Hadamard basis) and measured in
  the same basis (after H when the basis is Hadamard) gives that bit with probability
  1, and the other result with probability 0.
\<close>

theorem measurement_law:
  assumes "bj \<in> {CHR ''0'', CHR ''1''}" and "Bj \<in> {CHR ''0'', CHR ''1''}"
  shows "measure_prob (measure_basis Bj (prepare bj Bj)) (bj = CHR ''1'') = 1
     \<and> measure_prob (measure_basis Bj (prepare bj Bj)) (bj \<noteq> CHR ''1'') = 0
     \<and> str_bit (bj = CHR ''1'') = [bj]"
  using assms measure_same_basis [OF assms] by (auto simp: str_bit_def)

text \<open>C3 for the bit 1 in the Hadamard basis.\<close>

theorem measurement_law_witness:
  "CHR ''1'' \<in> {CHR ''0'', CHR ''1''}
   \<and> measure_prob (measure_basis CHR ''1'' (prepare CHR ''1'' CHR ''1'')) True = 1
   \<and> measure_prob (measure_basis CHR ''1'' (prepare CHR ''1'' CHR ''1'')) False = 0
   \<and> str_bit True = ''1''"
  using measurement_law [of "CHR ''1''" "CHR ''1''"] by simp

text \<open>
  C4, as amended. Verify does not consume the token: a second Verify gives, for every
  request, the answer it would have given before the first, and after an Issue and a
  Verify the issued token is still stored under \<open>client_alice\<close>.
\<close>

theorem verify_does_not_consume:
  "snd (ttp_verify (fst (ttp_verify st msg)) msg') = snd (ttp_verify st msg')
   \<and> token_storage (fst (ttp_verify (fst (ttp_issue rnd st)) msg)) ''client_alice''
       = Some (snd (ttp_issue rnd st))"
  by (simp add: fst_ttp_verify issued_token(3))

text \<open>
  C4 as stated fails: on the scenario the second Verify of the same request accepts
  again, where the claim has it fail for want of a token.
\<close>

theorem second_verify_counterexample:
  "ttp_issue e2e_rnd ttp_init = (e2e_state, e2e_token)
   \<and> ttp_verify e2e_state
        \<lparr>vm_client_id = ''client_alice'', vm_kappa = ''10110010'', vm_merchant_id = MERCHANT_ID\<rparr>
       = (e2e_state, Inr True)
   \<and> snd (ttp_verify (fst (ttp_verify e2e_state
        \<lparr>vm_client_id = ''client_alice'', vm_kappa = ''10110010'', vm_merchant_id = MERCHANT_ID\<rparr>))
        \<lparr>vm_client_id = ''client_alice'', vm_kappa = ''10110010'', vm_merchant_id = MERCHANT_ID\<rparr>)
       = Inr True
   \<and> (Inr True :: py_error + bool) \<noteq> Inl (KeyError ''client_alice'')"
  by (simp add: e2e_issue e2e_verify)




text \<open>
  C6. In an honest run with measurement results of positive probability, flipping
  the bit of the cryptogram at a checked position (a position where \<open>m\<close>, the MAC of
  the secret and \<open>MERCHANT_ID\<close>, has the basis of the token) before it reaches the
  TTP makes Verify answer reject.
\<close>

theorem tamper_detection:
  assumes "client_database st ''client_alice'' = Some secret"
    and "mac secret MERCHANT_ID = Inr m"
    and "run_protocol rnd outcome ''client_alice'' secret MERCHANT_ID st = Inr r"
    and "0 < pr_prob r"
    and "j \<in> set (checked_positions m (tok_B (pr_token r)))"
  shows "ttp_verify (pr_state r)
           \<lparr>vm_client_id = ''client_alice'',
            vm_kappa = (pr_kappa r)[j := flip_bit (pr_kappa r ! j)],
            vm_merchant_id = MERCHANT_ID\<rparr>
         = (pr_state r, Inr False)"
proof -
  let ?kappa = "map (\<lambda>j. if outcome j then CHR ''1'' else CHR ''0'') [0..<LAMBDA]"
  let ?kappa' = "?kappa[j := flip_bit (?kappa ! j)]"
  let ?st1 = "fst (ttp_issue rnd st)"
  from assms(3) have r: "pr_state r = ?st1" "pr_kappa r = ?kappa"
    "pr_token r = \<lparr>tok_b = random_bits rnd 0, tok_B = random_bits rnd LAMBDA\<rparr>"
    "pr_prob r = prod_list (map (\<lambda>j. measure_prob
              (measure_basis (m ! j) (prepare (random_bits rnd 0 ! j) (random_bits rnd LAMBDA ! j)))
              (outcome j)) [0..<LAMBDA])"
    by (auto simp: run_protocol_eq [OF assms(2)] issued_token(1))
  from assms(5) have j: "j < LAMBDA" and chk: "m ! j = random_bits rnd LAMBDA ! j"
    by (auto simp: checked_positions_def r)
  have "?kappa ! j = random_bits rnd 0 ! j"
    using honest_checked_match [of m rnd outcome j] assms(4) j chk by (simp add: r)
  then have neq: "?kappa' ! j \<noteq> random_bits rnd 0 ! j"
    using j flip_bit_neq [of "?kappa ! j"] by simp
  have "spec_matches m (random_bits rnd LAMBDA) ?kappa' (random_bits rnd 0)
      \<noteq> spec_total_checked m (random_bits rnd LAMBDA)"
    using neq j chk
    by (auto simp: spec_matches_def spec_total_checked_def checked_positions_def
        filter_conj_length_eq)
  then show ?thesis
    using ttp_verify_eq [of ?st1 "''client_alice''" secret "snd (ttp_issue rnd st)" MERCHANT_ID m
        ?kappa'] assms(1,2)
    by (auto simp: issued_token length_random_bits checked_positions_def r)
qed

text \<open>C6 on the scenario, with the first bit of the cryptogram flipped.\<close>

theorem tamper_detection_witness:
  "client_database ttp_init ''client_alice'' = Some SECRET_TOKEN
   \<and> mac SECRET_TOKEN MERCHANT_ID = Inr ''00110000''
   \<and> run_protocol e2e_rnd e2e_outcome ''client_alice'' SECRET_TOKEN MERCHANT_ID ttp_init =
       Inr \<lparr>pr_state = e2e_state, pr_token = e2e_token, pr_kappa = ''10110010'',
            pr_prob = 1 / 16, pr_result = Inr True\<rparr>
   \<and> 0 \<in> set (checked_positions ''00110000'' (tok_B e2e_token))
   \<and> ttp_verify e2e_state
        \<lparr>vm_client_id = ''client_alice'', vm_kappa = ''00110010'', vm_merchant_id = MERCHANT_ID\<rparr>
       = (e2e_state, Inr False)"
proof -
  let ?r = "\<lparr>pr_state = e2e_state, pr_token = e2e_token, pr_kappa = ''10110010'',
            pr_prob = 1 / 16, pr_result = Inr True\<rparr>"
  have h1: "client_database ttp_init ''client_alice'' = Some SECRET_TOKEN"
    by (simp add: ttp_init_def SECRET_TOKEN_def)
  have h2: "run_protocol e2e_rnd e2e_outcome ''client_alice'' SECRET_TOKEN MERCHANT_ID ttp_init = Inr ?r"
    by (rule e2e_run)
  have h3: "0 < pr_prob ?r" by simp
  have h4: "0 \<in> set (checked_positions ''00110000'' (tok_B (pr_token ?r)))"
    by (simp add: e2e_token_def e2e_checked)
  from tamper_detection [OF h1 mac_e2e' h2 h3 h4] h1 h2 h4 show ?thesis
    by (simp add: flip_bit_def mac_e2e')
qed

text \<open>
  C7, as amended. \<open>mac\<close> is a function of the secret and the message alone (equal
  arguments give equal results; it reads and writes no state). Where neither string
  holds a surrogate code point its result is a string of exactly \<open>LAMBDA = 8\<close>
  characters, each of them 0 or 1; where one does, it ends in the
  \<open>UnicodeEncodeError\<close> of \<open>encode\<close> and returns nothing.
\<close>

theorem mac_bits_or_encode_error:
  "(\<not> (\<exists>c\<in>set (secret @ message). is_surrogate c) \<longrightarrow>
      (\<exists>m. mac secret message = Inr m \<and> length m = LAMBDA
           \<and> set m \<subseteq> {CHR ''0'', CHR ''1''}))
   \<and> ((\<exists>c\<in>set (secret @ message). is_surrogate c) \<longrightarrow>
        mac secret message = Inl UnicodeEncodeError)
   \<and> (secret = secret' \<and> message = message' \<longrightarrow> mac secret message = mac secret' message')
   \<and> LAMBDA = 8"
proof (intro conjI impI)
  assume "\<not> (\<exists>c\<in>set (secret @ message). is_surrogate c)"
  then obtain m where "mac secret message = Inr m"
    using mac_no_surrogate by blast
  with length_mac set_mac
  show "\<exists>m. mac secret message = Inr m \<and> length m = LAMBDA \<and> set m \<subseteq> {CHR ''0'', CHR ''1''}"
    by blast
next
  assume "\<exists>c\<in>set (secret @ message). is_surrogate c"
  then show "mac secret message = Inl UnicodeEncodeError"
    by (rule mac_surrogate)
next
  assume "secret = secret' \<and> message = message'"
  then show "mac secret message = mac secret' message'" by simp
next
  show "LAMBDA = 8" by (simp add: LAMBDA_def)
qed

text \<open>C7 on the secret and the merchant of the scenario, which hold no surrogate.\<close>

theorem mac_bits_or_encode_error_witness:
  "list_all (\<lambda>c. c < 0xD800) (SECRET_TOKEN @ MERCHANT_ID)
   \<and> mac SECRET_TOKEN MERCHANT_ID = Inr ''00110000''
   \<and> length ''00110000'' = LAMBDA
   \<and> set ''00110000'' \<subseteq> {CHR ''0'', CHR ''1''}"
proof -
  have small: "list_all (\<lambda>c. c < 0xD800) (SECRET_TOKEN @ MERCHANT_ID)"
    by (simp add: SECRET_TOKEN_def MERCHANT_ID_def py_str_def)
  have "\<not> (\<exists>c\<in>set (SECRET_TOKEN @ MERCHANT_ID). is_surrogate c)"
  proof
    assume "\<exists>c\<in>set (SECRET_TOKEN @ MERCHANT_ID). is_surrogate c"
    then obtain c where c: "c \<in> set (SECRET_TOKEN @ MERCHANT_ID)" and "is_surrogate c"
      by blast
    then have "0xD800 \<le> c" by (simp add: is_surrogate_def)
    moreover from small c have "c < 0xD800"
      unfolding list_all_iff by blast
    ultimately show False by simp
  qed
  with mac_bits_or_encode_error [of SECRET_TOKEN MERCHANT_ID SECRET_TOKEN MERCHANT_ID] small
  show ?thesis
    by (simp add: mac_e2e' LAMBDA_def)
qed

text \<open>
  C7 as stated fails: for the secret that is the one code point U+D800, a
  surrogate, \<open>mac\<close> ends in an exception and returns no string.
\<close>

theorem mac_surrogate_counterexample:
  "mac [0xD800] MERCHANT_ID = Inl UnicodeEncodeError"
  using mac_lone_surrogate by (simp add: MERCHANT_ID_def)

text \<open>
  C8, as amended. Verify never compares the length of the cryptogram with \<open>LAMBDA\<close>.
  For a stored token of length \<open>LAMBDA\<close> and a cryptogram of any length, with \<open>m\<close> the
  MAC of the secret and the merchant identity, it ends in \<open>IndexError\<close> exactly when
  some checked position lies at or beyond the end of the cryptogram, and otherwise
  answers with the verdict of the checked positions. (Where the MAC cannot be
  computed, Verify ends in the exception of \<open>mac\<close>.)
\<close>

theorem verify_no_length_check:
  assumes "client_database st cid = Some secret"
    and "token_storage st cid = Some \<lparr>tok_b = b, tok_B = B\<rparr>"
    and "length b = LAMBDA" and "length B = LAMBDA"
  shows "ttp_verify st \<lparr>vm_client_id = cid, vm_kappa = kappa, vm_merchant_id = mid\<rparr> =
     (st, case mac secret mid of
            Inl e \<Rightarrow> Inl e
          | Inr m \<Rightarrow>
              if \<exists>j\<in>set (checked_positions m B). length kappa \<le> j
              then Inl IndexError
              else Inr (0 < spec_total_checked m B
                        \<and> spec_matches m B kappa b = spec_total_checked m B))"
proof (cases "mac secret mid")
  case (Inl e)
  with ttp_verify_mac_error [OF assms(1,2) Inl, of kappa] show ?thesis by simp
next
  case (Inr m)
  with ttp_verify_eq [OF assms(1,2) _ _ Inr, of kappa] assms(3,4) show ?thesis by auto
qed

text \<open>C8 on the scenario with a cryptogram of one character: position 2 is missing.\<close>

theorem verify_no_length_check_witness:
  "client_database e2e_state ''client_alice'' = Some SECRET_TOKEN
   \<and> token_storage e2e_state ''client_alice'' = Some \<lparr>tok_b = ''10110010'', tok_B = ''01101100''\<rparr>
   \<and> length ''10110010'' = LAMBDA \<and> length ''01101100'' = LAMBDA
   \<and> ttp_verify e2e_state
        \<lparr>vm_client_id = ''client_alice'', vm_kappa = ''1'', vm_merchant_id = MERCHANT_ID\<rparr>
       = (e2e_state, Inl IndexError)"
proof -
  have h: "client_database e2e_state ''client_alice'' = Some SECRET_TOKEN"
    "token_storage e2e_state ''client_alice'' = Some \<lparr>tok_b = ''10110010'', tok_B = ''01101100''\<rparr>"
    "length ''10110010'' = LAMBDA" "length ''01101100'' = LAMBDA"
    by (simp_all add: e2e_registered e2e_token_def SECRET_TOKEN_def LAMBDA_def)
  from verify_no_length_check [OF h, of "''1''" MERCHANT_ID] h show ?thesis
    by (simp add: mac_e2e' e2e_checked)
qed

text \<open>
  C8 as stated fails: a cryptogram of nine characters is judged on its checked
  positions and accepted.
\<close>

theorem long_cryptogram_counterexample:
  "length ''101100101'' \<noteq> LAMBDA
   \<and> ttp_verify e2e_state
        \<lparr>vm_client_id = ''client_alice'', vm_kappa = ''101100101'', vm_merchant_id = MERCHANT_ID\<rparr>
       = (e2e_state, Inr True)"
  using ttp_verify_eq [OF e2e_registered _ _ mac_e2e', of "''101100101''"]
  by (simp add: e2e_token_def LAMBDA_def e2e_checked spec_matches_def spec_total_checked_def)

text \<open>
  C9, as amended. Issue never fails: it stores the token it has drawn under
  \<open>client_alice\<close>, in place of any token stored there, and changes no other entry of
  the token store and nothing of the secret registry.
\<close>

theorem issue_overwrites:
  "token_storage (fst (ttp_issue rnd st)) ''client_alice'' = Some (snd (ttp_issue rnd st))
   \<and> snd (ttp_issue rnd st) = \<lparr>tok_b = random_bits rnd 0, tok_B = random_bits rnd LAMBDA\<rparr>
   \<and> (token_storage (fst (ttp_issue rnd st)))(''client_alice'' := None)
       = (token_storage st)(''client_alice'' := None)
   \<and> client_database (fst (ttp_issue rnd st)) = client_database st"
  by (simp add: ttp_issue_def Let_def)

text \<open>
  C9 as stated fails: a second Issue, while the token of the first is stored,
  replaces it.
\<close>

theorem issue_twice_counterexample:
  "token_storage (fst (ttp_issue e2e_rnd ttp_init)) ''client_alice'' = Some e2e_token
   \<and> token_storage (fst (ttp_issue vac_rnd (fst (ttp_issue e2e_rnd ttp_init)))) ''client_alice''
       = Some vac_token
   \<and> vac_token \<noteq> e2e_token"
proof -
  have "ttp_issue vac_rnd e2e_state =
      (e2e_state\<lparr>token_storage := [''client_alice'' \<mapsto> vac_token]\<rparr>, vac_token)"
    using vac_issue
    by (simp add: ttp_issue_def Let_def e2e_state_def vac_state_def)
  then show ?thesis
    by (simp add: e2e_issue e2e_state_def vac_token_def e2e_token_def)
qed

text \<open>
  C10. Verify changes neither dictionary of the TTP, whatever the request and
  whether it ends in a verdict or an exception; the token stays stored under the
  holder identity of the request.
\<close>

theorem verify_frame:
  "client_database (fst (ttp_verify st msg)) = client_database st
   \<and> token_storage (fst (ttp_verify st msg)) = token_storage st
   \<and> token_storage (fst (ttp_verify st msg)) (vm_client_id msg) = token_storage st (vm_client_id msg)"
  by (simp add: fst_ttp_verify)

end
